theory Spec2Isabelle
  imports
    Complex_Main
    "HOL-Library.Char_ord"
    "HOL-Library.List_Lexorder"
    "HOL-Library.Option_ord"
    "HOL-Library.Product_Lexorder"
begin

section \<open>SQL text functions used by \<open>query_cleaned\<close>\<close>

text \<open>
  \<open>dashboard3.py\<close> loads the CSV into an in-memory SQLite table and derives its typed
  columns with one SQL statement (\<open>query_cleaned\<close>, lines 16--31). What the program does
  to a field is therefore what SQLite's built-in functions do to it, and they are
  embedded here as SQLite evaluates them.

  A text value is a \<open>string\<close>; a column that may hold NULL is a \<open>string option\<close>.
  SQLite counts characters where HOL counts \<open>char\<close>s, so the embedding is exact for
  ASCII field values, which is what the CSV's prices, durations, dates and times are
  made of.
\<close>

definition sql_isspace :: "char \<Rightarrow> bool" where
  \<comment> \<open>the characters SQLite skips as white space: blank, TAB, LF, VT, FF, CR\<close>
  "sql_isspace c \<longleftrightarrow> c \<in> set [CHR '' '', CHR 0x09, CHR 0x0A, CHR 0x0B, CHR 0x0C, CHR 0x0D]"

definition is_digit :: "char \<Rightarrow> bool" where
  "is_digit c \<longleftrightarrow> c \<in> set ''0123456789''"

definition digit_val :: "char \<Rightarrow> nat" where
  "digit_val c = of_char c - 48"

definition digits_val :: "string \<Rightarrow> nat" where
  \<comment> \<open>the loop \<open>v = v*10 + c - '0'\<close> over a run of digits\<close>
  "digits_val ds = foldl (\<lambda>v c. v * 10 + digit_val c) 0 ds"

definition sql_tolower :: "char \<Rightarrow> char" where
  \<comment> \<open>LIKE folds the case of the 26 ASCII letters only\<close>
  "sql_tolower c = (if c \<in> set ''ABCDEFGHIJKLMNOPQRSTUVWXYZ'' then char_of (of_char c + (32::nat)) else c)"

text \<open>
  \<open>X LIKE P\<close>: \<open>%\<close> in the pattern stands for any run of characters, \<open>_\<close> for any one
  character, every other character for itself up to ASCII case.
\<close>

fun sql_like :: "string \<Rightarrow> string \<Rightarrow> bool" where
  "sql_like [] s = (s = [])"
| "sql_like (p # ps) [] = (p = CHR ''%'' \<and> sql_like ps [])"
| "sql_like (p # ps) (c # cs) =
     (if p = CHR ''%'' then sql_like ps (c # cs) \<or> sql_like (p # ps) cs
      else (p = CHR ''_'' \<or> sql_tolower p = sql_tolower c) \<and> sql_like ps cs)"

text \<open>\<open>INSTR(X, P)\<close>: the 1-based position of the first occurrence of \<open>P\<close> in \<open>X\<close>, 0 if none.\<close>

fun instr_from :: "nat \<Rightarrow> string \<Rightarrow> string \<Rightarrow> nat" where
  "instr_from i [] p = (if p = [] then i else 0)"
| "instr_from i (c # cs) p =
     (if take (length p) (c # cs) = p then i else instr_from (Suc i) cs p)"

definition sql_instr :: "string \<Rightarrow> string \<Rightarrow> int" where
  "sql_instr s p = int (instr_from 1 s p)"

text \<open>
  \<open>SUBSTR(X, Y, Z)\<close>, with SQLite's rules for a start before the first character and
  for a negative length (the \<open>|Z|\<close> characters before position \<open>Y\<close>). The program
  reaches the negative length: \<open>INSTR\<close> is case sensitive and \<open>LIKE\<close> is not, so
  \<open>SUBSTR(X, 1, INSTR(X, 'h') - 1)\<close> is asked for \<open>-1\<close> characters on \<open>2H\<close>.
\<close>

definition sql_substr :: "string \<Rightarrow> int \<Rightarrow> int \<Rightarrow> string" where
  "sql_substr s y z =
     (let len = int (length s);
          negP2 = z < 0;
          p2 = (if negP2 then - z else z);
          (p1, p2) =
            (if y < 0 then
               (if y + len < 0 then (0, max 0 (p2 + (y + len))) else (y + len, p2))
             else if y > 0 then (y - 1, p2)
             else if p2 > 0 then (y, p2 - 1)
             else (y, p2));
          (p1, p2) =
            (if negP2 then (if p1 - p2 < 0 then (0, p1) else (p1 - p2, p2)) else (p1, p2))
      in take (nat p2) (drop (nat p1) s))"

definition sql_length :: "string \<Rightarrow> int" where
  "sql_length s = int (length s)"

text \<open>\<open>REPLACE(X, P, R)\<close>: every occurrence of \<open>P\<close>, left to right, becomes \<open>R\<close>.\<close>

function sql_replace :: "string \<Rightarrow> string \<Rightarrow> string \<Rightarrow> string" where
  "sql_replace [] p r = []"
| "sql_replace (c # cs) p r =
     (if p \<noteq> [] \<and> take (length p) (c # cs) = p
      then r @ sql_replace (drop (length p) (c # cs)) p r
      else c # sql_replace cs p r)"
  by pat_completeness auto
termination
  by (relation "measure (\<lambda>(s, p, r). length s)") auto

text \<open>
  \<open>CAST(X AS INT)\<close> of a text: white space is skipped, then an optional sign, then
  the longest run of digits is read; what follows is ignored, no digits give 0, and a
  value beyond the 64-bit range is clamped to the nearest bound. Nothing makes the
  cast fail.
\<close>

definition sign_split :: "string \<Rightarrow> bool \<times> string" where
  "sign_split s =
     (case s of
        [] \<Rightarrow> (False, [])
      | c # cs \<Rightarrow>
          if c = CHR ''-'' then (True, cs)
          else if c = CHR ''+'' then (False, cs)
          else (False, s))"

definition cast_int :: "string \<Rightarrow> int" where
  "cast_int s =
     (let (neg, z) = sign_split (dropWhile sql_isspace s);
          v = int (digits_val (takeWhile is_digit z))
      in if v \<ge> 2 ^ 63 then (if neg then - (2 ^ 63) else 2 ^ 63 - 1)
         else if neg then - v else v)"

text \<open>
  A number in SQLite is a 64-bit integer or a floating-point value. Floating-point
  values are modelled by the exact rational they stand for: the rounding to binary64
  is not part of the model.
\<close>

datatype sqlnum = NInt int | NReal rat

fun num_rat :: "sqlnum \<Rightarrow> rat" where
  "num_rat (NInt i) = of_int i"
| "num_rat (NReal r) = r"

definition in_int64 :: "int \<Rightarrow> bool" where
  "in_int64 v \<longleftrightarrow> - (2 ^ 63) \<le> v \<and> v < 2 ^ 63"

text \<open>
  \<open>*\<close> and \<open>+\<close>: integer arithmetic on two integers while the result fits 64 bits,
  floating-point arithmetic otherwise.
\<close>

fun sql_mul :: "sqlnum \<Rightarrow> sqlnum \<Rightarrow> sqlnum" where
  "sql_mul (NInt a) (NInt b) = (if in_int64 (a * b) then NInt (a * b) else NReal (of_int a * of_int b))"
| "sql_mul x y = NReal (num_rat x * num_rat y)"

fun sql_add :: "sqlnum \<Rightarrow> sqlnum \<Rightarrow> sqlnum" where
  "sql_add (NInt a) (NInt b) = (if in_int64 (a + b) then NInt (a + b) else NReal (of_int a + of_int b))"
| "sql_add x y = NReal (num_rat x + num_rat y)"

section \<open>The duration parser\<close>

text \<open>
  Lines 19--27, the \<open>Duration_Minutes\<close> column:
  \<^verbatim>\<open>
  CASE WHEN [Duration Time] LIKE '%h %m' THEN
         CAST(SUBSTR([Duration Time], 1, INSTR([Duration Time], 'h') - 1) AS INT) * 60 +
         CAST(SUBSTR([Duration Time], INSTR([Duration Time], 'h') + 2, LENGTH([Duration Time])) AS INT)
       WHEN [Duration Time] LIKE '%h' THEN
         CAST(SUBSTR([Duration Time], 1, INSTR([Duration Time], 'h') - 1) AS INT) * 60
       ELSE CAST(REPLACE([Duration Time], 'm', '') AS INT)
  END\<close>
\<close>

definition parse_duration :: "string \<Rightarrow> sqlnum" where
  "parse_duration s =
     (if sql_like ''%h %m'' s then
        sql_add
          (sql_mul (NInt (cast_int (sql_substr s 1 (sql_instr s ''h'' - 1)))) (NInt 60))
          (NInt (cast_int (sql_substr s (sql_instr s ''h'' + 2) (sql_length s))))
      else if sql_like ''%h'' s then
        sql_mul (NInt (cast_int (sql_substr s 1 (sql_instr s ''h'' - 1)))) (NInt 60)
      else NInt (cast_int (sql_replace s ''m'' '''')))"

text \<open>On a NULL field both \<open>LIKE\<close>s are NULL, the \<open>ELSE\<close> is taken, and its cast of NULL is NULL.\<close>

definition Duration_Minutes_of :: "string option \<Rightarrow> sqlnum option" where
  "Duration_Minutes_of d = map_option parse_duration d"

section \<open>The price parser\<close>

text \<open>
  \<open>CAST(X AS FLOAT)\<close> of a text reads the longest prefix that is a decimal number:
  white space, an optional sign, digits, an optional fraction, an optional exponent.
  The value is that of the prefix, and 0.0 when there is none; the cast does not fail
  and does not yield NULL on a text. \<open>atof\<close> returns the value together with the flag
  SQLite computes alongside it: whether the whole text, up to trailing white space, is
  a number.
\<close>

definition pow10 :: "int \<Rightarrow> rat" where
  "pow10 e = (if e \<ge> 0 then 10 ^ nat e else 1 / 10 ^ nat (- e))"

definition atof :: "string \<Rightarrow> rat \<times> bool" where
  "atof s =
     (let z = dropWhile sql_isspace s in
      if z = [] then (0, False)
      else
        let (neg, z) = sign_split z;
            ip = takeWhile is_digit z;
            z = dropWhile is_digit z;
            (fp, z) =
              (case z of
                 [] \<Rightarrow> ([], z)
               | c # cs \<Rightarrow>
                   if c = CHR ''.'' then (takeWhile is_digit cs, dropWhile is_digit cs)
                   else ([], z));
            (e, eValid, z) =
              (case z of
                 [] \<Rightarrow> (0, True, z)
               | c # cs \<Rightarrow>
                   if c = CHR ''e'' \<or> c = CHR ''E'' then
                     (if cs = [] then (0, False, cs)
                      else
                        let (eneg, y) = sign_split cs;
                            ed = takeWhile is_digit y;
                            ev = int (digits_val ed)
                        in (if eneg then - ev else ev, ed \<noteq> [],
                            dropWhile sql_isspace (dropWhile is_digit y)))
                   else (0, True, dropWhile sql_isspace z));
            m = of_nat (digits_val (ip @ fp)) * pow10 (e - int (length fp))
        in (if neg then - m else m, z = [] \<and> ip @ fp \<noteq> [] \<and> eValid))"

definition cast_real :: "string \<Rightarrow> rat" where
  "cast_real s = fst (atof s)"

text \<open>Line 18: \<open>CAST(REPLACE([Flight Price], ',', '') AS FLOAT) AS Price_Float\<close>.\<close>

definition parse_price :: "string \<Rightarrow> rat" where
  "parse_price s = cast_real (sql_replace s '','' '''')"

text \<open>
  Lines 11 and 14: \<open>pd.read_csv(DATA_PATH)\<close> is called with pandas' default missing-value
  markers, so a cell holding one of the texts below (the empty cell first of all) is
  read as missing, and \<open>to_sql\<close> stores a missing value as NULL. Any other cell of a
  text column reaches SQLite as the text it is. (The list is the one of pandas 2;
  older versions do not have \<open>None\<close> in it.)
\<close>

definition STR_NA_VALUES :: "string list" where
  "STR_NA_VALUES =
     [[], ''#N/A'', ''#N/A N/A'', ''#NA'', ''-1.#IND'', ''-1.#QNAN'', ''-NaN'', ''-nan'',
      ''1.#IND'', ''1.#QNAN'', ''<NA>'', ''N/A'', ''NA'', ''NULL'', ''NaN'', ''None'',
      ''n/a'', ''nan'', ''null'']"

definition read_csv_cell :: "string \<Rightarrow> string option" where
  "read_csv_cell s = (if s \<in> set STR_NA_VALUES then None else Some s)"

text \<open>\<open>REPLACE\<close> of NULL is NULL and so is its cast: a missing price stays missing.\<close>

definition Price_Float_of :: "string option \<Rightarrow> rat option" where
  "Price_Float_of p = map_option parse_price p"

section \<open>The date parser\<close>

text \<open>
  Line 28:
  \<^verbatim>\<open>DATE(SUBSTR([Date], 7, 4) || '-' || SUBSTR([Date], 4, 2) || '-' || SUBSTR([Date], 1, 2))\<close>

  The argument of \<open>DATE\<close> has at most ten characters, two of them the dashes put in by
  the expression. SQLite reads such a text in one of two ways. It is \<open>YYYY-MM-DD\<close>,
  four, two and two digits with the month in 1..12 and the day in 1..31; a day above 28
  is then normalised through the Julian day number. Or the whole text is a real number,
  taken as a Julian day number when it lies in \<open>[0, 5373484.5)\<close>. Any other text gives
  NULL. (The remaining inputs of \<open>DATE\<close>, a time of day \<open>HH:MM\<close> and the word \<open>now\<close>,
  cannot be built by the expression: the first needs two digits after a colon in
  third place, where the expression has put a dash or the text has ended.)

  The conversions between a date and its Julian day number are SQLite's (as of
  version 3.46), which truncates as C does; its floating-point quotients are written
  as the integer quotients they are equal to.
\<close>

definition tdiv :: "int \<Rightarrow> int \<Rightarrow> int" where
  \<comment> \<open>C's integer division, which truncates towards zero\<close>
  "tdiv a b = sgn a * sgn b * (\<bar>a\<bar> div \<bar>b\<bar>)"

definition compute_jd :: "int \<Rightarrow> int \<Rightarrow> int \<Rightarrow> int" where
  \<comment> \<open>the Julian day number in milliseconds, \<open>(X1 + X2 + D + B - 1524.5) * 86400000\<close>\<close>
  "compute_jd Y0 M0 D =
     (let (Y, M) = (if M0 \<le> 2 then (Y0 - 1, M0 + 12) else (Y0, M0));
          A = tdiv Y 100;
          B = 2 - A + tdiv A 4;
          X1 = tdiv (36525 * (Y + 4716)) 100;
          X2 = tdiv (306001 * (M + 1)) 10000
      in (2 * (X1 + X2 + D + B) - 3049) * 43200000)"

definition compute_ymd :: "int \<Rightarrow> int \<times> int \<times> int" where
  "compute_ymd iJD =
     (let Z = tdiv (iJD + 43200000) 86400000;
          A = tdiv (4 * Z - 7468865) 146097;     \<comment> \<open>\<open>(Z - 1867216.25) / 36524.25\<close>\<close>
          A = Z + 1 + A - tdiv A 4;
          B = A + 1524;
          C = tdiv (20 * B - 2442) 7305;         \<comment> \<open>\<open>(B - 122.1) / 365.25\<close>\<close>
          D = tdiv (36525 * (C mod 32768)) 100;  \<comment> \<open>\<open>36525 * (C & 32767) / 100\<close>\<close>
          E = tdiv ((B - D) * 10000) 306001;     \<comment> \<open>\<open>(B - D) / 30.6001\<close>\<close>
          X1 = tdiv (306001 * E) 10000;          \<comment> \<open>\<open>30.6001 * E\<close>\<close>
          day = B - D - X1;
          month = (if E < 14 then E - 1 else E - 13);
          year = (if month > 2 then C - 4716 else C - 4715)
      in (year, month, day))"

definition digit_char :: "int \<Rightarrow> char" where
  \<comment> \<open>the last decimal digit of \<open>n\<close>, as SQLite's \<open>'0' + n % 10\<close> writes it\<close>
  "digit_char n = ''0123456789'' ! nat (n mod 10)"

definition format_date :: "int \<times> int \<times> int \<Rightarrow> string" where
  "format_date ymd =
     (case ymd of (y, m, d) \<Rightarrow>
        let a = \<bar>y\<bar>;
            t = [digit_char (a div 1000), digit_char (a div 100), digit_char (a div 10), digit_char a,
                 CHR ''-'', digit_char (m div 10), digit_char m,
                 CHR ''-'', digit_char (d div 10), digit_char d]
        in if y < 0 then CHR ''-'' # t else t)"

definition parse_ymd :: "string \<Rightarrow> (int \<times> int \<times> int) option" where
  "parse_ymd s =
     (if length s = 10 \<and> s ! 4 = CHR ''-'' \<and> s ! 7 = CHR ''-''
         \<and> list_all is_digit (take 4 s) \<and> list_all is_digit (take 2 (drop 5 s))
         \<and> list_all is_digit (drop 8 s)
      then
        let Y = int (digits_val (take 4 s));
            M = int (digits_val (take 2 (drop 5 s)));
            D = int (digits_val (drop 8 s))
        in if 1 \<le> M \<and> M \<le> 12 \<and> 1 \<le> D \<and> D \<le> 31 then Some (Y, M, D) else None
      else None)"

definition sql_date :: "string \<Rightarrow> string option" where
  "sql_date s =
     (case parse_ymd s of
        Some (Y, M, D) \<Rightarrow>
          Some (format_date (if D > 28 then compute_ymd (compute_jd Y M D) else (Y, M, D)))
      | None \<Rightarrow>
          (case atof s of (r, whole) \<Rightarrow>
             if whole \<and> 0 \<le> r \<and> r < 53734845 / 10
             then Some (format_date (compute_ymd (\<lfloor>r * 86400000 + 1 / 2\<rfloor>)))
             else None))"

definition parse_date :: "string \<Rightarrow> string option" where
  "parse_date d = sql_date (sql_substr d 7 4 @ ''-'' @ sql_substr d 4 2 @ ''-'' @ sql_substr d 1 2)"

text \<open>\<open>||\<close> with a NULL operand is NULL, and \<open>DATE(NULL)\<close> is NULL.\<close>

definition Travel_Date_of :: "string option \<Rightarrow> string option" where
  "Travel_Date_of d = (case d of None \<Rightarrow> None | Some s \<Rightarrow> parse_date s)"

section \<open>The departure hour\<close>

text \<open>
  Line 29: \<open>SUBSTR([Departure Time], 1, 2) AS Departure_Hour\<close>. The column is the text of
  the first two characters; SQL does not read it as a number.
\<close>

definition parse_departure_hour :: "string \<Rightarrow> string" where
  "parse_departure_hour t = sql_substr t 1 2"

definition Departure_Hour_of :: "string option \<Rightarrow> string option" where
  "Departure_Hour_of t = map_option parse_departure_hour t"

section \<open>The relation builder\<close>

text \<open>
  A raw record is a row of the table \<open>flights\<close> as \<open>to_sql\<close> writes it (lines 11--14);
  an empty CSV cell arrives as NULL. \<open>query_cleaned\<close> is \<open>SELECT *, ... FROM flights\<close>
  without a \<open>WHERE\<close>: every row is kept, its own columns unchanged, and gains the four
  derived columns. \<open>df_cleaned\<close> is what line 32 reads back.
\<close>

record raw_record =
  Company :: "string option"
  Cabin_Class :: "string option"
  Origin :: "string option"
  Destination :: "string option"
  Flight_Price :: "string option"
  Duration_Time :: "string option"
  Date :: "string option"
  Departure_Time :: "string option"

record cleaned_record = raw_record +
  Price_Float :: "rat option"
  Duration_Minutes :: "sqlnum option"
  Travel_Date :: "string option"
  Departure_Hour :: "string option"

definition clean_row :: "raw_record \<Rightarrow> cleaned_record" where
  "clean_row r =
     raw_record.extend r
       (cleaned_record.fields
          (Price_Float_of (Flight_Price r))
          (Duration_Minutes_of (Duration_Time r))
          (Travel_Date_of (Date r))
          (Departure_Hour_of (Departure_Time r)))"

definition df_cleaned :: "raw_record list \<Rightarrow> cleaned_record list" where
  "df_cleaned df_raw = map clean_row df_raw"

section \<open>Python values and errors\<close>

text \<open>
  From line 32 on the relation is a pandas data frame and the program is Python. An
  exception that the script does not catch ends the run; it is the \<open>Inl\<close> of a sum.
\<close>

datatype py_error = ValueError | TypeError | IndexError | KeyError string

definition and_then :: "py_error + 'a \<Rightarrow> ('a \<Rightarrow> py_error + 'b) \<Rightarrow> py_error + 'b" where
  \<comment> \<open>one statement after another: the first exception ends the sequence\<close>
  "and_then m f = (case m of Inl e \<Rightarrow> Inl e | Inr v \<Rightarrow> f v)"

fun defined :: "'a option list \<Rightarrow> 'a list" where
  \<comment> \<open>the values of a column that are not missing\<close>
  "defined [] = []"
| "defined (None # xs) = defined xs"
| "defined (Some v # xs) = v # defined xs"

text \<open>
  \<open>int(s)\<close> of a text: white space is stripped from both ends, a sign may lead, and
  what is left must be decimal digits, with single underscores allowed between them.
  Anything else raises \<open>ValueError\<close>.
\<close>

definition py_isspace :: "char \<Rightarrow> bool" where
  "py_isspace c \<longleftrightarrow>
     c \<in> set [CHR '' '', CHR 0x09, CHR 0x0A, CHR 0x0B, CHR 0x0C, CHR 0x0D]"

definition py_strip :: "string \<Rightarrow> string" where
  "py_strip s = rev (dropWhile py_isspace (rev (dropWhile py_isspace s)))"

fun py_digits :: "string \<Rightarrow> bool" where
  "py_digits [] = False"
| "py_digits [c] = is_digit c"
| "py_digits (c # d # cs) =
     (is_digit c \<and> (if d = CHR ''_'' then py_digits cs else py_digits (d # cs)))"

definition py_int :: "string \<Rightarrow> py_error + int" where
  "py_int s =
     (let (neg, z) = sign_split (py_strip s) in
      if py_digits z then
        let v = int (digits_val (filter (\<lambda>c. c \<noteq> CHR ''_'') z))
        in Inr (if neg then - v else v)
      else Inl ValueError)"

text \<open>\<open>int(x)\<close> of a float truncates towards zero; \<open>int(nan)\<close> raises \<open>ValueError\<close>.\<close>

definition py_int_of_float :: "rat option \<Rightarrow> py_error + int" where
  "py_int_of_float x =
     (case x of
        None \<Rightarrow> Inl ValueError
      | Some r \<Rightarrow> Inr (if r \<ge> 0 then \<lfloor>r\<rfloor> else \<lceil>r\<rceil>))"

definition py_int_of_object :: "string option \<Rightarrow> py_error + int" where
  \<comment> \<open>\<open>int\<close> of what \<open>min\<close> and \<open>max\<close> of a column of texts return: a text or \<open>nan\<close>\<close>
  "py_int_of_object x = (case x of None \<Rightarrow> Inl ValueError | Some s \<Rightarrow> py_int s)"

section \<open>The numeric bounds of the sidebar\<close>

text \<open>
  Lines 52--62. \<open>Series.min()\<close> and \<open>Series.max()\<close> skip missing values and return
  \<open>nan\<close> when nothing is left, also on an empty column. On the column of hour texts
  they compare Python strings; a column that mixes texts with missing values cannot be
  compared and raises \<open>TypeError\<close>. The sliders themselves are Streamlit's and are not
  modelled.
\<close>

definition nan_min :: "rat option list \<Rightarrow> rat option" where
  "nan_min col = (case defined col of [] \<Rightarrow> None | v # vs \<Rightarrow> Some (fold min vs v))"

definition nan_max :: "rat option list \<Rightarrow> rat option" where
  "nan_max col = (case defined col of [] \<Rightarrow> None | v # vs \<Rightarrow> Some (fold max vs v))"

definition object_min :: "string option list \<Rightarrow> py_error + string option" where
  "object_min col =
     (case defined col of
        [] \<Rightarrow> Inr None
      | v # vs \<Rightarrow> if None \<in> set col then Inl TypeError else Inr (Some (fold min vs v)))"

definition object_max :: "string option list \<Rightarrow> py_error + string option" where
  "object_max col =
     (case defined col of
        [] \<Rightarrow> Inr None
      | v # vs \<Rightarrow> if None \<in> set col then Inl TypeError else Inr (Some (fold max vs v)))"

record bounds =
  min_hour :: int
  max_hour :: int
  min_price :: int
  max_price :: int
  min_duration :: int
  max_duration :: int

definition duration_value :: "cleaned_record \<Rightarrow> rat option" where
  \<comment> \<open>the number pandas holds in the column \<open>Duration_Minutes\<close>\<close>
  "duration_value r = map_option num_rat (Duration_Minutes r)"

definition derive_bounds :: "cleaned_record list \<Rightarrow> py_error + bounds" where
  "derive_bounds df =
     and_then (and_then (object_min (map Departure_Hour df)) py_int_of_object) (\<lambda>lo_h.
     and_then (and_then (object_max (map Departure_Hour df)) py_int_of_object) (\<lambda>hi_h.
     and_then (py_int_of_float (nan_min (map Price_Float df))) (\<lambda>lo_p.
     and_then (py_int_of_float (nan_max (map Price_Float df))) (\<lambda>hi_p.
     and_then (py_int_of_float (nan_min (map duration_value df))) (\<lambda>lo_d.
     and_then (py_int_of_float (nan_max (map duration_value df))) (\<lambda>hi_d.
       Inr \<lparr>min_hour = lo_h, max_hour = hi_h, min_price = lo_p, max_price = hi_p,
            min_duration = lo_d, max_duration = hi_d\<rparr>))))))"

section \<open>The filter\<close>

text \<open>
  Lines 64--75. The filter specification is what the widgets return: four lists of
  selected values and three pairs of integers. \<open>isin\<close> is false on a missing value; a
  comparison with \<open>nan\<close> is false; \<open>astype(int)\<close> converts the whole column of hour
  texts before any row is compared, and raises on the first text that is not an
  integer (\<open>ValueError\<close>) or on a missing value (\<open>TypeError\<close>).
\<close>

record filter_spec =
  selected_airlines :: "string list"
  selected_classes :: "string list"
  selected_origins :: "string list"
  selected_destinations :: "string list"
  departure_hour_range :: "int \<times> int"
  price_range :: "int \<times> int"
  duration_range :: "int \<times> int"

definition isin :: "string option \<Rightarrow> string list \<Rightarrow> bool" where
  "isin v sel = (case v of None \<Rightarrow> False | Some x \<Rightarrow> x \<in> set sel)"

definition ge_num :: "rat option \<Rightarrow> int \<Rightarrow> bool" where
  "ge_num v b = (case v of None \<Rightarrow> False | Some x \<Rightarrow> of_int b \<le> x)"

definition le_num :: "rat option \<Rightarrow> int \<Rightarrow> bool" where
  "le_num v b = (case v of None \<Rightarrow> False | Some x \<Rightarrow> x \<le> of_int b)"

fun astype_int :: "string option list \<Rightarrow> py_error + int list" where
  "astype_int [] = Inr []"
| "astype_int (None # xs) = Inl TypeError"
| "astype_int (Some s # xs) =
     and_then (py_int s) (\<lambda>v. and_then (astype_int xs) (\<lambda>vs. Inr (v # vs)))"

definition keep_row :: "filter_spec \<Rightarrow> cleaned_record \<times> int \<Rightarrow> bool" where
  "keep_row spec rh =
     (case rh of (r, h) \<Rightarrow>
        isin (Company r) (selected_airlines spec)
      \<and> isin (Cabin_Class r) (selected_classes spec)
      \<and> isin (Origin r) (selected_origins spec)
      \<and> isin (Destination r) (selected_destinations spec)
      \<and> h \<ge> fst (departure_hour_range spec)
      \<and> h \<le> snd (departure_hour_range spec)
      \<and> ge_num (Price_Float r) (fst (price_range spec))
      \<and> le_num (Price_Float r) (snd (price_range spec))
      \<and> ge_num (duration_value r) (fst (duration_range spec))
      \<and> le_num (duration_value r) (snd (duration_range spec)))"

definition df_filtered :: "cleaned_record list \<Rightarrow> filter_spec \<Rightarrow> py_error + cleaned_record list" where
  "df_filtered df spec =
     and_then (astype_int (map Departure_Hour df))
       (\<lambda>hours. Inr (map fst (filter (keep_row spec) (zip df hours))))"

section \<open>The categorical choices of the sidebar\<close>

text \<open>
  Lines 37--50. The options of a multiselect are the sorted distinct defined values of a
  column. Line 43 reads \<open>all_classes[0]\<close> whenever there are fewer than two cabin
  classes, which raises \<open>IndexError\<close> when there is none.
\<close>

definition all_values :: "string option list \<Rightarrow> string list" where
  "all_values col = sort (remdups (defined col))"

definition class_options :: "cleaned_record list \<Rightarrow> py_error + string list" where
  "class_options df =
     (let all_classes = all_values (map Cabin_Class df) in
      if length all_classes > 1 then Inr all_classes
      else (case all_classes of [] \<Rightarrow> Inl IndexError | c # cs \<Rightarrow> Inr all_classes))"

definition sidebar :: "cleaned_record list \<Rightarrow> py_error + filter_spec" where
  \<comment> \<open>the filter specification of a user who leaves every widget at its default\<close>
  "sidebar df =
     and_then (class_options df) (\<lambda>classes.
     and_then (derive_bounds df) (\<lambda>b.
       Inr \<lparr>selected_airlines = all_values (map Company df),
            selected_classes = classes,
            selected_origins = all_values (map Origin df),
            selected_destinations = all_values (map Destination df),
            departure_hour_range = (min_hour b, max_hour b),
            price_range = (min_price b, max_price b),
            duration_range = (min_duration b, max_duration b)\<rparr>))"

section \<open>The aggregate catalog\<close>

text \<open>
  Lines 83--149: eleven SQL queries over the filtered relation. \<open>GROUP BY\<close> returns
  one row per distinct key, in key order, \<open>NULL\<close> first; \<open>AVG\<close> sums the values that
  are not \<open>NULL\<close> and divides by their number, and is \<open>NULL\<close> when there is none;
  \<open>ORDER BY x DESC\<close> returns the rows of the ascending stable sort in reverse.
\<close>

datatype sqlval = SNull | SNum rat | SText string

definition text_val :: "string option \<Rightarrow> sqlval" where
  "text_val x = (case x of None \<Rightarrow> SNull | Some s \<Rightarrow> SText s)"

definition num_val :: "rat option \<Rightarrow> sqlval" where
  "num_val x = (case x of None \<Rightarrow> SNull | Some v \<Rightarrow> SNum v)"

definition count_val :: "nat \<Rightarrow> sqlval" where
  "count_val n = SNum (of_nat n)"

definition sql_concat :: "string option \<Rightarrow> string option \<Rightarrow> string option" where
  "sql_concat a b =
     (case a of None \<Rightarrow> None
      | Some x \<Rightarrow> (case b of None \<Rightarrow> None | Some y \<Rightarrow> Some (x @ y)))"

definition sql_avg :: "rat option list \<Rightarrow> rat option" where
  "sql_avg col =
     (case fold (\<lambda>x (s, n). case x of None \<Rightarrow> (s, n) | Some v \<Rightarrow> (s + v, n + 1)) col (0, 0 :: nat) of
        (s, n) \<Rightarrow> if n = 0 then None else Some (s / of_nat n))"

definition sql_round2 :: "rat option \<Rightarrow> rat option" where
  \<comment> \<open>\<open>ROUND(x, 2)\<close>: to the nearest hundredth, a half away from zero\<close>
  "sql_round2 x =
     map_option (\<lambda>r. if r \<ge> 0 then of_int \<lfloor>r * 100 + 1 / 2\<rfloor> / 100
                     else - (of_int \<lfloor>- r * 100 + 1 / 2\<rfloor> / 100)) x"

definition group_by :: "('r \<Rightarrow> 'k :: linorder) \<Rightarrow> 'r list \<Rightarrow> ('k \<times> 'r list) list" where
  "group_by key rows =
     map (\<lambda>k. (k, filter (\<lambda>r. key r = k) rows)) (sort (remdups (map key rows)))"

definition order_by_desc :: "('r \<Rightarrow> 'k :: linorder) \<Rightarrow> 'r list \<Rightarrow> 'r list" where
  "order_by_desc key rows = rev (sort_key key rows)"

definition Route :: "cleaned_record \<Rightarrow> string option" where
  \<comment> \<open>\<open>Origin || ' -> ' || Destination\<close>, the arrow being U+2192 in UTF-8\<close>
  "Route r =
     sql_concat (sql_concat (Origin r) (Some [CHR '' '', CHR 0xE2, CHR 0x86, CHR 0x92, CHR '' '']))
       (Destination r)"

definition Hour :: "cleaned_record \<Rightarrow> string option" where
  "Hour r = sql_concat (Departure_Hour r) (Some '':00'')"

definition average_price_per_airline :: "cleaned_record list \<Rightarrow> (string option \<times> rat option) list" where
  "average_price_per_airline rel =
     order_by_desc snd
       (map (\<lambda>(k, g). (k, sql_round2 (sql_avg (map Price_Float g)))) (group_by Company rel))"

definition flight_count_per_route :: "cleaned_record list \<Rightarrow> (string option \<times> nat) list" where
  "flight_count_per_route rel =
     order_by_desc snd (map (\<lambda>(k, g). (k, length g)) (group_by Route rel))"

definition average_duration_per_route :: "cleaned_record list \<Rightarrow> (string option \<times> rat option) list" where
  "average_duration_per_route rel =
     order_by_desc snd
       (map (\<lambda>(k, g). (k, sql_round2 (sql_avg (map duration_value g)))) (group_by Route rel))"

definition cabin_class_share :: "cleaned_record list \<Rightarrow> (string option \<times> nat) list" where
  "cabin_class_share rel = map (\<lambda>(k, g). (k, length g)) (group_by Cabin_Class rel)"

definition flights_per_airline :: "cleaned_record list \<Rightarrow> (string option \<times> nat) list" where
  "flights_per_airline rel =
     order_by_desc snd (map (\<lambda>(k, g). (k, length g)) (group_by Company rel))"

definition price_trends_over_time :: "cleaned_record list \<Rightarrow> (string option \<times> rat option) list" where
  "price_trends_over_time rel =
     sort_key fst
       (map (\<lambda>(k, g). (k, sql_round2 (sql_avg (map Price_Float g)))) (group_by Travel_Date rel))"

definition departure_hour_popularity :: "cleaned_record list \<Rightarrow> (string option \<times> nat) list" where
  "departure_hour_popularity rel =
     order_by_desc snd (map (\<lambda>(k, g). (k, length g)) (group_by Hour rel))"

definition cabin_class_per_airline ::
  "cleaned_record list \<Rightarrow> (string option \<times> string option \<times> nat) list" where
  \<comment> \<open>\<open>ORDER BY Company, Count DESC\<close>: by company, and within a company by falling count\<close>
  "cabin_class_per_airline rel =
     sort_key fst
       (order_by_desc (\<lambda>row. snd (snd row))
          (map (\<lambda>(k, g). (fst k, snd k, length g))
             (group_by (\<lambda>r. (Company r, Cabin_Class r)) rel)))"

definition price_distribution_by_airline :: "cleaned_record list \<Rightarrow> (string option \<times> rat option) list" where
  "price_distribution_by_airline rel = map (\<lambda>r. (Company r, Price_Float r)) rel"

definition busiest_airports :: "cleaned_record list \<Rightarrow> (string option \<times> nat \<times> rat option) list" where
  "busiest_airports rel =
     take 15
       (order_by_desc (\<lambda>row. fst (snd row))
          (map (\<lambda>(k, g). (k, length g, sql_round2 (sql_avg (map Price_Float g))))
             (group_by Origin rel)))"

definition price_vs_duration ::
  "cleaned_record list \<Rightarrow> (rat option \<times> rat option \<times> string option) list" where
  "price_vs_duration rel = map (\<lambda>r. (Price_Float r, duration_value r, Company r)) rel"

definition queries :: "(string \<times> (cleaned_record list \<Rightarrow> sqlval list list)) list" where
  "queries =
     [(''Average Price per Airline'',
         \<lambda>rel. map (\<lambda>(c, a). [text_val c, num_val a]) (average_price_per_airline rel)),
      (''Flight Count per Route'',
         \<lambda>rel. map (\<lambda>(c, n). [text_val c, count_val n]) (flight_count_per_route rel)),
      (''Average Duration per Route'',
         \<lambda>rel. map (\<lambda>(c, a). [text_val c, num_val a]) (average_duration_per_route rel)),
      (''Cabin Class Share'',
         \<lambda>rel. map (\<lambda>(c, n). [text_val c, count_val n]) (cabin_class_share rel)),
      (''Flights per Airline'',
         \<lambda>rel. map (\<lambda>(c, n). [text_val c, count_val n]) (flights_per_airline rel)),
      (''Price Trends Over Time'',
         \<lambda>rel. map (\<lambda>(c, a). [text_val c, num_val a]) (price_trends_over_time rel)),
      (''Departure Hour Popularity'',
         \<lambda>rel. map (\<lambda>(c, n). [text_val c, count_val n]) (departure_hour_popularity rel)),
      (''Cabin Class per Airline'',
         \<lambda>rel. map (\<lambda>(c, k, n). [text_val c, text_val k, count_val n]) (cabin_class_per_airline rel)),
      (''Price Distribution by Airline'',
         \<lambda>rel. map (\<lambda>(c, p). [text_val c, num_val p]) (price_distribution_by_airline rel)),
      (''Busiest Airports (Top 15)'',
         \<lambda>rel. map (\<lambda>(c, n, a). [text_val c, count_val n, num_val a]) (busiest_airports rel)),
      (''Price vs Duration Scatter Plot'',
         \<lambda>rel. map (\<lambda>(p, d, c). [num_val p, num_val d, text_val c]) (price_vs_duration rel))]"

section \<open>Choosing and drawing a chart\<close>

text \<open>
  Lines 158--240. A dictionary subscript \<open>d[k]\<close> raises \<open>KeyError\<close> when \<open>k\<close> is not a
  key. Line 158 looks the chosen name up in \<open>queries\<close> before the chain of comparisons
  that draws the figure. A figure is kept as its kind, its title and its data.
\<close>

definition subscript :: "(string \<times> 'v) list \<Rightarrow> string \<Rightarrow> py_error + 'v" where
  "subscript d k = (case map_of d k of None \<Rightarrow> Inl (KeyError k) | Some v \<Rightarrow> Inr v)"

definition chart_titles :: "(string \<times> string) list" where
  "chart_titles =
     [(''Average Price per Airline'', ''Average Flight Price by Airline''),
      (''Flight Count per Route'', ''Most Popular Routes by Flight Count''),
      (''Average Duration per Route'', ''Average Flight Duration by Route''),
      (''Cabin Class Share'', ''Distribution of Cabin Classes''),
      (''Flights per Airline'', ''Total Flights by Airline''),
      (''Price Trends Over Time'', ''Daily Average Price Over Time''),
      (''Departure Hour Popularity'', ''Departure Time Popularity''),
      (''Cabin Class per Airline'', ''Airline-wise Cabin Class Breakdown''),
      (''Price Distribution by Airline'', ''Price Distribution & Outliers by Airline''),
      (''Busiest Airports (Top 15)'', ''Top 15 Busiest Departure Airports & Their Avg Price''),
      (''Price vs Duration Scatter Plot'', ''Price vs Duration Scatter Plot by Airline''),
      (''Monthly Flight Volume'', ''Monthly Flight Volume & Average Price Trend'')]"

datatype figure =
  Chart string string "sqlval list list"
| Placeholder string

definition titled :: "string \<Rightarrow> string \<Rightarrow> sqlval list list \<Rightarrow> py_error + figure" where
  "titled kind chart_option df_viz =
     and_then (subscript chart_titles chart_option) (\<lambda>title. Inr (Chart kind title df_viz))"

definition render :: "string \<Rightarrow> cleaned_record list \<Rightarrow> py_error + figure" where
  "render chart_option rel =
     and_then (subscript queries chart_option) (\<lambda>query.
       let df_viz = query rel in
       if chart_option = ''Average Price per Airline'' then titled ''bar'' chart_option df_viz
       else if chart_option = ''Flight Count per Route'' then titled ''bar'' chart_option df_viz
       else if chart_option = ''Average Duration per Route'' then titled ''bar'' chart_option df_viz
       else if chart_option = ''Cabin Class Share'' then titled ''pie'' chart_option df_viz
       else if chart_option = ''Flights per Airline'' then titled ''bar'' chart_option df_viz
       else if chart_option = ''Price Trends Over Time'' then titled ''line'' chart_option df_viz
       else if chart_option = ''Departure Hour Popularity'' then titled ''bar'' chart_option df_viz
       else if chart_option = ''Cabin Class per Airline'' then titled ''stacked bar'' chart_option df_viz
       else if chart_option = ''Price Distribution by Airline'' then titled ''box'' chart_option df_viz
       else if chart_option = ''Busiest Airports (Top 15)'' then titled ''bar and line'' chart_option df_viz
       else if chart_option = ''Price vs Duration Scatter Plot'' then titled ''scatter and trendline'' chart_option df_viz
       else Inr (Placeholder ''Chart type not implemented yet.''))"

section \<open>Specification-side notions and example data\<close>


text \<open>A row of the CSV file, each cell as \<open>read_csv\<close> delivers it.\<close>

definition flight ::
  "string \<Rightarrow> string \<Rightarrow> string \<Rightarrow> string \<Rightarrow> string \<Rightarrow> string \<Rightarrow> string \<Rightarrow> string \<Rightarrow> raw_record" where
  "flight company cabin origin destination price duration date time =
     \<lparr>Company = read_csv_cell company, Cabin_Class = read_csv_cell cabin,
      Origin = read_csv_cell origin, Destination = read_csv_cell destination,
      Flight_Price = read_csv_cell price, Duration_Time = read_csv_cell duration,
      Date = read_csv_cell date, Departure_Time = read_csv_cell time\<rparr>"


definition three_flights :: "raw_record list" where
  \<comment> \<open>three flights of one airline; the price cell of the second is empty\<close>
  "three_flights =
     [flight ''IndiGo'' ''Economy'' ''DEL'' ''BOM'' ''5,000'' ''2h 30m'' ''05-03-2024'' ''09:30'',
      flight ''IndiGo'' ''Economy'' ''DEL'' ''BOM'' [] ''2h'' ''05-03-2024'' ''12:15'',
      flight ''IndiGo'' ''Economy'' ''DEL'' ''BOM'' ''6,000'' ''45m'' ''05-03-2024'' ''23:10'']"

definition bad_hour_flights :: "raw_record list" where
  \<comment> \<open>three flights; the departure time of the second does not start with two digits\<close>
  "bad_hour_flights =
     [flight ''IndiGo'' ''Economy'' ''DEL'' ''BOM'' ''5,000'' ''2h 30m'' ''05-03-2024'' ''09:30'',
      flight ''IndiGo'' ''Economy'' ''DEL'' ''BOM'' ''6,000'' ''2h'' ''05-03-2024'' ''1x:30'',
      flight ''IndiGo'' ''Economy'' ''DEL'' ''BOM'' ''6,000'' ''45m'' ''05-03-2024'' ''23:10'']"

definition no_airline :: "filter_spec \<Rightarrow> filter_spec" where
  \<comment> \<open>the user removes every airline from the first multiselect\<close>
  "no_airline spec = spec\<lparr>selected_airlines := []\<rparr>"


section \<open>Properties of the duration parser\<close>







lemma sql_replace_char: "sql_replace s [x] [] = filter (\<lambda>c. c \<noteq> x) s"
  by (induction s) auto

lemma set_sql_replace: "set (sql_replace s [x] []) \<subseteq> set s"
  by (simp add: sql_replace_char)


lemma is_digit_cases:
  assumes "is_digit c"
  obtains "c = CHR ''0''" | "c = CHR ''1''" | "c = CHR ''2''" | "c = CHR ''3''" | "c = CHR ''4''"
    | "c = CHR ''5''" | "c = CHR ''6''" | "c = CHR ''7''" | "c = CHR ''8''" | "c = CHR ''9''"
  using assms unfolding is_digit_def by (simp only: set_simps list.set insert_iff empty_iff) blast

lemma is_digit_facts:
  assumes "is_digit c"
  shows "\<not> sql_isspace c" "c \<noteq> CHR ''-''" "c \<noteq> CHR ''+''" "c \<noteq> CHR ''h''" "c \<noteq> CHR ''m''"
    "sql_tolower c = c"
  using assms by (cases rule: is_digit_cases; simp add: sql_isspace_def sql_tolower_def)+


lemma set_sign_split: "set (snd (sign_split t)) \<subseteq> set t"
  by (cases t) (auto simp: sign_split_def)











section \<open>Properties of the price parser\<close>

lemma takeWhile_no_digit: "\<forall>c\<in>set xs. \<not> is_digit c \<Longrightarrow> takeWhile is_digit xs = []"
  by (cases xs) simp_all

lemma set_dropWhile_subset: "set (dropWhile P xs) \<subseteq> set xs"
  by (induction xs) auto

lemma atof_no_digit:
  assumes nd: "\<forall>c\<in>set s. \<not> is_digit c"
  shows "fst (atof s) = 0"
proof (cases "dropWhile sql_isspace s = []")
  case True
  then show ?thesis by (simp add: atof_def)
next
  case False
  obtain neg z where nz: "sign_split (dropWhile sql_isspace s) = (neg, z)"
    by (cases "sign_split (dropWhile sql_isspace s)")
  have "set z \<subseteq> set (dropWhile sql_isspace s)"
    using set_sign_split [of "dropWhile sql_isspace s"] nz by simp
  then have zs: "set z \<subseteq> set s" using set_dropWhile_subset [of sql_isspace s] by blast
  then have ip: "takeWhile is_digit z = []" using nd by (intro takeWhile_no_digit) blast
  have dz: "set (dropWhile is_digit z) \<subseteq> set s" using zs set_dropWhile_subset [of is_digit z] by blast
  have fp: "takeWhile is_digit cs = []" if "dropWhile is_digit z = c # cs" for c cs
    using dz that nd by (intro takeWhile_no_digit) auto
  show ?thesis
    using False
    by (auto simp: atof_def nz ip fp digits_val_def Let_def split: list.splits prod.splits)
qed

lemma parse_price_no_digit:
  assumes "\<forall>c\<in>set s. \<not> is_digit c"
  shows "parse_price s = 0"
  unfolding parse_price_def cast_real_def
  using assms set_sql_replace [of s "CHR '',''"] by (intro atof_no_digit) blast


lemma parse_price_example: "parse_price ''12,345.50'' = 24691 / 2"
  by (simp add: parse_price_def cast_real_def atof_def sql_isspace_def sign_split_def is_digit_def
      digits_val_def digit_val_def pow10_def)

text \<open>
  Claim C2, as the code has it. \<open>parse_price\<close> drops every comma and casts the rest
  to a floating-point value, so \<open>12,345.50\<close> is 12345.5, and it never raises. An
  empty cell is read as missing and its price is the undefined value. A cell whose
  text reaches the cast always gets a number: the value of the longest numeric prefix
  of what is left, which is 0.0, not the undefined value, when the text holds no
  digit.
\<close>

theorem parse_price_text:
  "Price_Float_of (read_csv_cell []) = None
   \<and> (s \<notin> set STR_NA_VALUES
        \<longrightarrow> Price_Float_of (read_csv_cell s) = Some (cast_real (filter (\<lambda>c. c \<noteq> CHR '','') s)))
   \<and> (s \<notin> set STR_NA_VALUES \<and> (\<forall>c\<in>set s. \<not> is_digit c)
        \<longrightarrow> Price_Float_of (read_csv_cell s) = Some 0)
   \<and> Price_Float_of (read_csv_cell ''12,345.50'') = Some (24691 / 2)"
proof (intro conjI impI)
  show "Price_Float_of (read_csv_cell []) = None"
    by (simp add: read_csv_cell_def STR_NA_VALUES_def Price_Float_of_def)
  show "Price_Float_of (read_csv_cell ''12,345.50'') = Some (24691 / 2)"
    using parse_price_example by (simp add: read_csv_cell_def STR_NA_VALUES_def Price_Float_of_def)
next
  assume "s \<notin> set STR_NA_VALUES"
  then show "Price_Float_of (read_csv_cell s) = Some (cast_real (filter (\<lambda>c. c \<noteq> CHR '','') s))"
    by (simp add: read_csv_cell_def Price_Float_of_def parse_price_def sql_replace_char)
next
  assume "s \<notin> set STR_NA_VALUES \<and> (\<forall>c\<in>set s. \<not> is_digit c)"
  then show "Price_Float_of (read_csv_cell s) = Some 0"
    by (simp add: read_csv_cell_def Price_Float_of_def parse_price_no_digit)
qed

theorem parse_price_text_witness:
  "Price_Float_of (read_csv_cell ''on request'') = Some 0
   \<and> Price_Float_of (read_csv_cell ''12,345.50'') = Some (24691 / 2)
   \<and> Price_Float_of (read_csv_cell []) = None"
proof -
  have n: "''on request'' \<notin> set STR_NA_VALUES" by (simp add: STR_NA_VALUES_def)
  have h: "\<forall>c\<in>set ''on request''. \<not> is_digit c" by (simp add: is_digit_def)
  from parse_price_text [of "''on request''"] n h show ?thesis by blast
qed

text \<open>
  A remainder that is not numeric: the price of the cell \<open>abc\<close> is the number 0.0,
  not an undefined value.
\<close>

theorem parse_price_abc_counterexample:
  "Price_Float_of (read_csv_cell ''abc'') = Some 0"
  by (simp add: read_csv_cell_def STR_NA_VALUES_def Price_Float_of_def parse_price_def cast_real_def
      atof_def sql_isspace_def sign_split_def is_digit_def digits_val_def pow10_def)

section \<open>Properties of the relation builder\<close>

text \<open>
  Claim C3. The cleaned relation has exactly one record per raw record, in the same
  order, each carrying its raw record unchanged; this holds for every raw relation,
  the empty one included, whatever the fields parse to.
\<close>

theorem df_cleaned_row_count:
  "length (df_cleaned df_raw) = length df_raw
   \<and> map raw_record.truncate (df_cleaned df_raw) = df_raw"
  by (simp add: df_cleaned_def clean_row_def raw_record.truncate_def raw_record.extend_def
      comp_def map_idI)

section \<open>Properties of the date parser\<close>

lemma digit_val_bound:
  assumes "is_digit c"
  shows "digit_val c < 10"
  using assms by (cases rule: is_digit_cases) (simp_all add: digit_val_def)

lemma digit_char_val:
  assumes "is_digit c"
  shows "''0123456789'' ! digit_val c = c"
  using assms by (cases rule: is_digit_cases) (simp_all add: digit_val_def)

lemma nat_int_div_mod: "nat (int k div int d mod int e) = k div d mod e"
  by (simp add: zdiv_int [symmetric] zmod_int [symmetric])

lemma nd1000: "nat (int k div 1000 mod 10) = k div 1000 mod 10"
  using nat_int_div_mod [of k 1000 10] by simp

lemma nd100: "nat (int k div 100 mod 10) = k div 100 mod 10"
  using nat_int_div_mod [of k 100 10] by simp

lemma nd10: "nat (int k div 10 mod 10) = k div 10 mod 10"
  using nat_int_div_mod [of k 10 10] by simp

lemma nd1: "nat (int k mod 10) = k mod 10"
  using nat_int_div_mod [of k 1 10] by simp

lemma dig4n:
  fixes p q r s :: nat
  assumes "p < 10" "q < 10" "r < 10" "s < 10"
  shows "(((p * 10 + q) * 10 + r) * 10 + s) div 1000 mod 10 = p"
    and "(((p * 10 + q) * 10 + r) * 10 + s) div 100 mod 10 = q"
    and "(((p * 10 + q) * 10 + r) * 10 + s) div 10 mod 10 = r"
    and "(((p * 10 + q) * 10 + r) * 10 + s) mod 10 = s"
proof -
  let ?n = "((p * 10 + q) * 10 + r) * 10 + s"
  have d1: "?n div 10 = (p * 10 + q) * 10 + r" using assms by simp
  have d2: "?n div 100 = p * 10 + q"
    using div_mult2_eq [of ?n 10 10] d1 assms by simp
  have d3: "?n div 1000 = p"
    using div_mult2_eq [of ?n 100 10] d2 assms by simp
  show "?n div 1000 mod 10 = p" unfolding d3 using assms by simp
  show "?n div 100 mod 10 = q" unfolding d2 using assms by simp
  show "?n div 10 mod 10 = r" unfolding d1 using assms by (simp only: mod_mult_self3 mod_less)
  show "?n mod 10 = s" using assms by (simp only: mod_mult_self3 mod_less)
qed

lemma dig2n:
  fixes p q :: nat
  assumes "p < 10" "q < 10"
  shows "(p * 10 + q) div 10 mod 10 = p" and "(p * 10 + q) mod 10 = q"
  using assms by simp_all

lemma format_date_digits:
  assumes "is_digit f" "is_digit g" "is_digit h" "is_digit i" "is_digit c" "is_digit e"
    "is_digit a" "is_digit b"
  shows "format_date (int (digits_val [f, g, h, i]), int (digits_val [c, e]), int (digits_val [a, b]))
           = [f, g, h, i, CHR ''-'', c, e, CHR ''-'', a, b]"
proof -
  note b = assms [THEN digit_val_bound]
  have v4: "digits_val [f, g, h, i] = ((digit_val f * 10 + digit_val g) * 10 + digit_val h) * 10 + digit_val i"
    by (simp add: digits_val_def)
  have vm: "digits_val [c, e] = digit_val c * 10 + digit_val e" by (simp add: digits_val_def)
  have vd: "digits_val [a, b] = digit_val a * 10 + digit_val b" by (simp add: digits_val_def)
  have y1: "digit_char (int (digits_val [f, g, h, i]) div 1000) = f"
    unfolding digit_char_def nd1000 v4 dig4n(1) [OF b(1-4)] by (rule digit_char_val [OF assms(1)])
  have y2: "digit_char (int (digits_val [f, g, h, i]) div 100) = g"
    unfolding digit_char_def nd100 v4 dig4n(2) [OF b(1-4)] by (rule digit_char_val [OF assms(2)])
  have y3: "digit_char (int (digits_val [f, g, h, i]) div 10) = h"
    unfolding digit_char_def nd10 v4 dig4n(3) [OF b(1-4)] by (rule digit_char_val [OF assms(3)])
  have y4: "digit_char (int (digits_val [f, g, h, i])) = i"
    unfolding digit_char_def nd1 v4 dig4n(4) [OF b(1-4)] by (rule digit_char_val [OF assms(4)])
  have m1: "digit_char (int (digits_val [c, e]) div 10) = c"
    unfolding digit_char_def nd10 vm dig2n(1) [OF b(5,6)] by (rule digit_char_val [OF assms(5)])
  have m2: "digit_char (int (digits_val [c, e])) = e"
    unfolding digit_char_def nd1 vm dig2n(2) [OF b(5,6)] by (rule digit_char_val [OF assms(6)])
  have d1: "digit_char (int (digits_val [a, b]) div 10) = a"
    unfolding digit_char_def nd10 vd dig2n(1) [OF b(7,8)] by (rule digit_char_val [OF assms(7)])
  have d2: "digit_char (int (digits_val [a, b])) = b"
    unfolding digit_char_def nd1 vd dig2n(2) [OF b(7,8)] by (rule digit_char_val [OF assms(8)])
  have nn: "\<bar>int (digits_val [f, g, h, i])\<bar> = int (digits_val [f, g, h, i])" by simp
  have ng: "\<not> int (digits_val [f, g, h, i]) < 0" by simp
  show ?thesis
    unfolding format_date_def by (simp only: prod.case Let_def nn ng if_False y1 y2 y3 y4 m1 m2 d1 d2)
qed

lemma date_argument:
  "sql_substr (a # b # x # c # e # y # f # g # h # i # rest) 7 4
     @ ''-'' @ sql_substr (a # b # x # c # e # y # f # g # h # i # rest) 4 2
     @ ''-'' @ sql_substr (a # b # x # c # e # y # f # g # h # i # rest) 1 2
   = [f, g, h, i, CHR ''-'', c, e, CHR ''-'', a, b]"
  by (simp add: sql_substr_def Let_def)

lemma parse_ymd_digits:
  assumes "is_digit f" "is_digit g" "is_digit h" "is_digit i" "is_digit c" "is_digit e"
    "is_digit a" "is_digit b"
  shows "parse_ymd [f, g, h, i, CHR ''-'', c, e, CHR ''-'', a, b] =
     (if 1 \<le> digits_val [c, e] \<and> digits_val [c, e] \<le> 12 \<and> 1 \<le> digits_val [a, b] \<and> digits_val [a, b] \<le> 31
      then Some (int (digits_val [f, g, h, i]), int (digits_val [c, e]), int (digits_val [a, b]))
      else None)"
  using assms by (simp add: parse_ymd_def Let_def)

lemma atof_date_not_whole:
  assumes "is_digit f" "is_digit g" "is_digit h" "is_digit i"
  shows "\<not> snd (atof (f # g # h # i # CHR ''-'' # rest))"
proof -
  let ?z = "f # g # h # i # CHR ''-'' # rest"
  have sp: "dropWhile sql_isspace ?z = ?z"
    using is_digit_facts(1) [OF assms(1)] by simp
  have ss: "sign_split ?z = (False, ?z)"
    using is_digit_facts(2,3) [OF assms(1)] by (simp add: sign_split_def)
  have nd: "\<not> is_digit (CHR ''-'')" by (simp add: is_digit_def)
  have tw: "takeWhile is_digit ?z = [f, g, h, i]" using assms nd by simp
  have dw: "dropWhile is_digit ?z = CHR ''-'' # rest" using assms nd by simp
  have ns: "dropWhile sql_isspace (CHR ''-'' # rest) = CHR ''-'' # rest" by (simp add: sql_isspace_def)
  have "atof ?z = (of_nat (digits_val [f, g, h, i]) * pow10 0, False)"
    unfolding atof_def sp
    apply (simp only: Let_def ss prod.case tw dw list.case list.distinct if_False char.inject
        append_Nil2 list.size ns simp_thms)
    apply simp
    done
  then show ?thesis by simp
qed



lemma sql_date_digits:
  assumes "is_digit f" "is_digit g" "is_digit h" "is_digit i" "is_digit c" "is_digit e"
    "is_digit a" "is_digit b"
  shows "sql_date [f, g, h, i, CHR ''-'', c, e, CHR ''-'', a, b] =
     (if 1 \<le> digits_val [c, e] \<and> digits_val [c, e] \<le> 12 \<and> 1 \<le> digits_val [a, b] \<and> digits_val [a, b] \<le> 31
      then Some (format_date
             (if 28 < digits_val [a, b]
              then compute_ymd (compute_jd (int (digits_val [f, g, h, i])) (int (digits_val [c, e])) (int (digits_val [a, b])))
              else (int (digits_val [f, g, h, i]), int (digits_val [c, e]), int (digits_val [a, b]))))
      else None)"
proof -
  obtain r w where rw: "atof [f, g, h, i, CHR ''-'', c, e, CHR ''-'', a, b] = (r, w)"
    by (cases "atof [f, g, h, i, CHR ''-'', c, e, CHR ''-'', a, b]")
  with atof_date_not_whole [OF assms(1-4), of "[c, e, CHR ''-'', a, b]"] have w: "\<not> w" by simp
  show ?thesis
    unfolding sql_date_def parse_ymd_digits [OF assms] rw using w by simp
qed

text \<open>
  Claim C9, as the code has it. The date is rebuilt from the characters at positions
  1--2, 4--5 and 7--10 (whatever separates them) and handed to \<open>DATE\<close>. With digits in
  those places and a month in 1..12: a day in 1..28 yields that date; a month or day
  outside 1..12 and 1..31 yields the undefined value; a day 29, 30 or 31 never fails,
  whether or not the month has such a day, and yields the date that SQLite's Julian
  day conversion gives back.
\<close>

theorem parse_date_digits:
  assumes "is_digit a" "is_digit b" "is_digit c" "is_digit e"
    "is_digit f" "is_digit g" "is_digit h" "is_digit i"
  shows "let dt = a # b # x # c # e # y # f # g # h # i # rest;
             Y = digits_val [f, g, h, i]; M = digits_val [c, e]; D = digits_val [a, b]
         in (1 \<le> M \<and> M \<le> 12 \<and> 1 \<le> D \<and> D \<le> 28
               \<longrightarrow> parse_date dt = Some [f, g, h, i, CHR ''-'', c, e, CHR ''-'', a, b])
          \<and> (M < 1 \<or> 12 < M \<or> D < 1 \<or> 31 < D \<longrightarrow> parse_date dt = None)
          \<and> (1 \<le> M \<and> M \<le> 12 \<and> 29 \<le> D \<and> D \<le> 31
               \<longrightarrow> parse_date dt = Some (format_date (compute_ymd (compute_jd (int Y) (int M) (int D)))))"
proof -
  have pd: "parse_date (a # b # x # c # e # y # f # g # h # i # rest)
              = sql_date [f, g, h, i, CHR ''-'', c, e, CHR ''-'', a, b]"
    unfolding parse_date_def date_argument ..
  note sd = sql_date_digits [OF assms(5-8) assms(3,4) assms(1,2)]
  note fd = format_date_digits [OF assms(5-8) assms(3,4) assms(1,2)]
  show ?thesis
    unfolding Let_def pd sd by (auto simp: fd)
qed

theorem parse_date_digits_witness:
  "parse_date ''05-03-2024'' = Some ''2024-03-05''
   \<and> parse_date ''29-02-2024'' = Some ''2024-02-29''
   \<and> parse_date ''15-13-2024'' = None"
proof -
  have d: "is_digit CHR ''0''" "is_digit CHR ''1''" "is_digit CHR ''2''" "is_digit CHR ''3''"
    "is_digit CHR ''4''" "is_digit CHR ''5''" "is_digit CHR ''9''"
    by (simp_all add: is_digit_def)
  have v: "digits_val ''03'' = 3" "digits_val ''05'' = 5" "digits_val ''02'' = 2"
    "digits_val ''29'' = 29" "digits_val ''2024'' = 2024" "digits_val ''13'' = 13" "digits_val ''15'' = 15"
    by code_simp+
  have r: "format_date (compute_ymd (compute_jd 2024 2 29)) = ''2024-02-29''"
    by code_simp
  from parse_date_digits [OF d(1) d(6) d(1) d(4) d(3) d(1) d(3) d(5), of "CHR ''-''" "CHR ''-''" "[]"]
  have a: "parse_date ''05-03-2024'' = Some ''2024-03-05''"
    by (simp add: v Let_def)
  from parse_date_digits [OF d(3) d(7) d(1) d(3) d(3) d(1) d(3) d(5), of "CHR ''-''" "CHR ''-''" "[]"]
  have b: "parse_date ''29-02-2024'' = Some ''2024-02-29''"
    by (simp add: v r Let_def)
  from parse_date_digits [OF d(2) d(6) d(2) d(4) d(3) d(1) d(3) d(5), of "CHR ''-''" "CHR ''-''" "[]"]
  have c: "parse_date ''15-13-2024'' = None"
    by (simp add: v Let_def)
  from a b c show ?thesis by simp
qed

text \<open>
  The thirty-first of February is not a calendar date, and \<open>parse_date\<close> does not fail
  on it: it yields the second of March.
\<close>

theorem parse_date_feb31_counterexample:
  "parse_date ''31-02-2024'' = Some ''2024-03-02''"
  by code_simp


section \<open>An unknown catalog name\<close>

lemma catalog_names:
  "map fst queries =
     [''Average Price per Airline'', ''Flight Count per Route'', ''Average Duration per Route'',
      ''Cabin Class Share'', ''Flights per Airline'', ''Price Trends Over Time'',
      ''Departure Hour Popularity'', ''Cabin Class per Airline'',
      ''Price Distribution by Airline'', ''Busiest Airports (Top 15)'',
      ''Price vs Duration Scatter Plot'']"
  by (simp add: queries_def)

lemma subscript_unknown:
  "k \<notin> set (map fst d) \<Longrightarrow> subscript d k = Inl (KeyError k)"
proof -
  assume "k \<notin> set (map fst d)"
  hence "map_of d k = None" by (simp add: map_of_eq_None_iff)
  thus ?thesis by (simp add: subscript_def)
qed

lemma subscript_known:
  "subscript d k = Inr v \<Longrightarrow> k \<in> set (map fst d)"
proof -
  assume a: "subscript d k = Inr v"
  have "map_of d k \<noteq> None"
  proof
    assume "map_of d k = None"
    with a show False by (simp add: subscript_def)
  qed
  thus ?thesis by (simp add: map_of_eq_None_iff)
qed

lemma titled_no_placeholder: "titled kind k v \<noteq> Inr (Placeholder msg)"
  by (cases "subscript chart_titles k") (simp_all add: titled_def and_then_def)

lemma render_no_placeholder: "render chart_option rel \<noteq> Inr (Placeholder msg)"
proof (cases "subscript queries chart_option")
  case (Inl e)
  thus ?thesis by (simp add: render_def and_then_def)
next
  case (Inr q)
  hence "chart_option \<in> set (map fst queries)" by (rule subscript_known)
  hence k: "chart_option = ''Average Price per Airline'' \<or> chart_option = ''Flight Count per Route''
      \<or> chart_option = ''Average Duration per Route'' \<or> chart_option = ''Cabin Class Share''
      \<or> chart_option = ''Flights per Airline'' \<or> chart_option = ''Price Trends Over Time''
      \<or> chart_option = ''Departure Hour Popularity'' \<or> chart_option = ''Cabin Class per Airline''
      \<or> chart_option = ''Price Distribution by Airline'' \<or> chart_option = ''Busiest Airports (Top 15)''
      \<or> chart_option = ''Price vs Duration Scatter Plot''"
    unfolding catalog_names by (simp only: set_simps insert_iff empty_iff simp_thms)
  have r: "render chart_option rel =
      (if chart_option = ''Average Price per Airline'' then titled ''bar'' chart_option (q rel)
       else if chart_option = ''Flight Count per Route'' then titled ''bar'' chart_option (q rel)
       else if chart_option = ''Average Duration per Route'' then titled ''bar'' chart_option (q rel)
       else if chart_option = ''Cabin Class Share'' then titled ''pie'' chart_option (q rel)
       else if chart_option = ''Flights per Airline'' then titled ''bar'' chart_option (q rel)
       else if chart_option = ''Price Trends Over Time'' then titled ''line'' chart_option (q rel)
       else if chart_option = ''Departure Hour Popularity'' then titled ''bar'' chart_option (q rel)
       else if chart_option = ''Cabin Class per Airline'' then titled ''stacked bar'' chart_option (q rel)
       else if chart_option = ''Price Distribution by Airline'' then titled ''box'' chart_option (q rel)
       else if chart_option = ''Busiest Airports (Top 15)'' then titled ''bar and line'' chart_option (q rel)
       else if chart_option = ''Price vs Duration Scatter Plot'' then titled ''scatter and trendline'' chart_option (q rel)
       else Inr (Placeholder ''Chart type not implemented yet.''))"
    unfolding render_def Inr and_then_def Let_def by (simp only: sum.case)
  from k show ?thesis
    unfolding r by (elim disjE) (simp_all add: titled_no_placeholder)
qed

text \<open>
  Claim C10. Selecting a catalog entry by a name that is not in the aggregate catalog is a
  fatal error: for every name that is not a key of \<open>queries\<close>, the subscript of line 158
  raises \<open>KeyError\<close> with that name, before any figure is built; and for no name at all
  does the program return the placeholder figure of lines 238--240.
\<close>

theorem render_unknown_name:
  "(chart_option \<notin> set (map fst queries) \<longrightarrow> render chart_option rel = Inl (KeyError chart_option))
   \<and> render chart_option rel \<noteq> Inr (Placeholder msg)"
proof
  show "chart_option \<notin> set (map fst queries) \<longrightarrow> render chart_option rel = Inl (KeyError chart_option)"
  proof
    assume "chart_option \<notin> set (map fst queries)"
    hence "subscript queries chart_option = Inl (KeyError chart_option)" by (rule subscript_unknown)
    thus "render chart_option rel = Inl (KeyError chart_option)"
      by (simp add: render_def and_then_def)
  qed
  show "render chart_option rel \<noteq> Inr (Placeholder msg)" by (rule render_no_placeholder)
qed

theorem render_unknown_name_witness:
  "''Monthly Flight Volume'' \<notin> set (map fst queries)
   \<and> render ''Monthly Flight Volume'' [] = Inl (KeyError ''Monthly Flight Volume'')
   \<and> render ''Monthly Flight Volume'' [] \<noteq> Inr (Placeholder ''Chart type not implemented yet.'')"
proof -
  have n: "''Monthly Flight Volume'' \<notin> set (map fst queries)"
    unfolding catalog_names by simp
  from render_unknown_name [of "''Monthly Flight Volume''" "[]" "''Chart type not implemented yet.''"] n
  show ?thesis by blast
qed


section \<open>Example rows\<close>

lemma clean_row_fields:
  "Company (clean_row r) = Company r"
  "Cabin_Class (clean_row r) = Cabin_Class r"
  "Origin (clean_row r) = Origin r"
  "Destination (clean_row r) = Destination r"
  "Price_Float (clean_row r) = Price_Float_of (Flight_Price r)"
  "Duration_Minutes (clean_row r) = Duration_Minutes_of (Duration_Time r)"
  "Travel_Date (clean_row r) = Travel_Date_of (Date r)"
  "Departure_Hour (clean_row r) = Departure_Hour_of (Departure_Time r)"
  by (simp_all add: clean_row_def raw_record.defs cleaned_record.defs)

lemma flight_fields:
  "Company (flight c k og de p du dt tm) = read_csv_cell c"
  "Cabin_Class (flight c k og de p du dt tm) = read_csv_cell k"
  "Origin (flight c k og de p du dt tm) = read_csv_cell og"
  "Destination (flight c k og de p du dt tm) = read_csv_cell de"
  "Flight_Price (flight c k og de p du dt tm) = read_csv_cell p"
  "Duration_Time (flight c k og de p du dt tm) = read_csv_cell du"
  "Date (flight c k og de p du dt tm) = read_csv_cell dt"
  "Departure_Time (flight c k og de p du dt tm) = read_csv_cell tm"
  by (simp_all add: flight_def)

lemma example_cells:
  "read_csv_cell [] = None"
  "read_csv_cell ''IndiGo'' = Some ''IndiGo''"
  "read_csv_cell ''Economy'' = Some ''Economy''"
  "read_csv_cell ''DEL'' = Some ''DEL''"
  "read_csv_cell ''BOM'' = Some ''BOM''"
  "read_csv_cell ''5,000'' = Some ''5,000''"
  "read_csv_cell ''6,000'' = Some ''6,000''"
  "read_csv_cell ''2h 30m'' = Some ''2h 30m''"
  "read_csv_cell ''2h'' = Some ''2h''"
  "read_csv_cell ''45m'' = Some ''45m''"
  "read_csv_cell ''09:30'' = Some ''09:30''"
  "read_csv_cell ''12:15'' = Some ''12:15''"
  "read_csv_cell ''1x:30'' = Some ''1x:30''"
  "read_csv_cell ''23:10'' = Some ''23:10''"
  "read_csv_cell ''25:00'' = Some ''25:00''"
  by (simp_all add: read_csv_cell_def STR_NA_VALUES_def)

lemma example_prices:
  "Price_Float_of None = None"
  "Price_Float_of (Some ''5,000'') = Some 5000"
  "Price_Float_of (Some ''6,000'') = Some 6000"
  by (simp_all add: Price_Float_of_def parse_price_def cast_real_def atof_def sql_isspace_def
      sign_split_def is_digit_def digits_val_def digit_val_def pow10_def)

lemma example_durations:
  "Duration_Minutes_of None = None"
  "Duration_Minutes_of (Some ''2h 30m'') = Some (NInt 150)"
  "Duration_Minutes_of (Some ''2h'') = Some (NInt 120)"
  "Duration_Minutes_of (Some ''45m'') = Some (NInt 45)"
  by code_simp+

lemma example_hours:
  "Departure_Hour_of (Some ''09:30'') = Some ''09''"
  "Departure_Hour_of (Some ''12:15'') = Some ''12''"
  "Departure_Hour_of (Some ''1x:30'') = Some ''1x''"
  "Departure_Hour_of (Some ''23:10'') = Some ''23''"
  "Departure_Hour_of (Some ''25:00'') = Some ''25''"
  by code_simp+

lemma three_flights_columns:
  "map Company (df_cleaned three_flights) = [Some ''IndiGo'', Some ''IndiGo'', Some ''IndiGo'']"
  "map Cabin_Class (df_cleaned three_flights) = [Some ''Economy'', Some ''Economy'', Some ''Economy'']"
  "map Origin (df_cleaned three_flights) = [Some ''DEL'', Some ''DEL'', Some ''DEL'']"
  "map Destination (df_cleaned three_flights) = [Some ''BOM'', Some ''BOM'', Some ''BOM'']"
  "map Price_Float (df_cleaned three_flights) = [Some 5000, None, Some 6000]"
  "map duration_value (df_cleaned three_flights) = [Some 150, Some 120, Some 45]"
  "map Departure_Hour (df_cleaned three_flights) = [Some ''09'', Some ''12'', Some ''23'']"
  by (simp_all add: df_cleaned_def three_flights_def clean_row_fields flight_fields example_cells
      example_prices example_durations example_hours duration_value_def)

lemma three_flights_sidebar:
  "sidebar (df_cleaned three_flights) =
     Inr \<lparr>selected_airlines = [''IndiGo''], selected_classes = [''Economy''],
          selected_origins = [''DEL''], selected_destinations = [''BOM''],
          departure_hour_range = (9, 23), price_range = (5000, 6000),
          duration_range = (45, 150)\<rparr>"
  unfolding sidebar_def class_options_def derive_bounds_def three_flights_columns
  by code_simp

lemma example_astype_int:
  "astype_int [Some ''09'', Some ''12'', Some ''23''] = Inr [9, 12, 23]"
  "astype_int [Some ''09'', Some ''1x'', Some ''23''] = Inl ValueError"
  by code_simp+



section \<open>Averages and undefined values\<close>




lemma group_by_iff:
  "(k, g) \<in> set (group_by key rows) \<longleftrightarrow> k \<in> key ` set rows \<and> g = filter (\<lambda>r. key r = k) rows"
  by (auto simp add: group_by_def)







text \<open>
  The filter keeps no row whose price or duration is undefined: a comparison with
  \<open>nan\<close> is false.
\<close>

lemma df_filtered_rows:
  assumes "df_filtered df spec = Inr rel"
  shows "\<exists>hours. rel = map fst (filter (keep_row spec) (zip df hours))"
proof (cases "astype_int (map Departure_Hour df)")
  case (Inl e)
  with assms show ?thesis by (simp add: df_filtered_def and_then_def)
next
  case (Inr hours)
  with assms have "rel = map fst (filter (keep_row spec) (zip df hours))"
    by (simp add: df_filtered_def and_then_def)
  thus ?thesis by blast
qed

lemma keep_row_defined:
  assumes "keep_row spec (r, h)"
  shows "Price_Float r \<noteq> None \<and> duration_value r \<noteq> None"
proof -
  from assms have "ge_num (Price_Float r) (fst (price_range spec))"
    and "ge_num (duration_value r) (fst (duration_range spec))"
    by (simp_all add: keep_row_def)
  thus ?thesis by (cases "Price_Float r"; cases "duration_value r") (simp_all add: ge_num_def)
qed

lemma df_filtered_defined:
  assumes "df_filtered df spec = Inr rel" and "r \<in> set rel"
  shows "Price_Float r \<noteq> None \<and> duration_value r \<noteq> None"
proof -
  from assms(1) obtain hours where rel: "rel = map fst (filter (keep_row spec) (zip df hours))"
    using df_filtered_rows by blast
  from assms(2) obtain h where "(r, h) \<in> set (filter (keep_row spec) (zip df hours))"
    unfolding rel by auto
  hence "keep_row spec (r, h)" by simp
  thus ?thesis by (rule keep_row_defined)
qed



section \<open>An empty categorical selection\<close>

lemma isin_empty: "isin v [] = False"
  by (cases v) (simp_all add: isin_def)

lemma keep_row_empty_selection:
  assumes "selected_airlines spec = [] \<or> selected_classes spec = []
           \<or> selected_origins spec = [] \<or> selected_destinations spec = []"
  shows "\<not> keep_row spec rh"
proof (cases rh)
  case (Pair r h)
  from assms show ?thesis
    unfolding Pair keep_row_def by (auto simp add: isin_empty)
qed

lemma df_filtered_empty_selection:
  assumes "selected_airlines spec = [] \<or> selected_classes spec = []
           \<or> selected_origins spec = [] \<or> selected_destinations spec = []"
    and "astype_int (map Departure_Hour df) = Inr hours"
  shows "df_filtered df spec = Inr []"
proof -
  have "filter (keep_row spec) (zip df hours) = []"
    using keep_row_empty_selection [OF assms(1)] by (simp add: filter_empty_conv)
  thus ?thesis by (simp add: df_filtered_def assms(2) and_then_def)
qed

lemma df_filtered_raises:
  assumes "astype_int (map Departure_Hour df) = Inl e"
  shows "df_filtered df spec = Inl e"
  by (simp add: df_filtered_def assms and_then_def)

lemma group_by_Nil: "group_by key [] = []"
  by (simp add: group_by_def)

lemma queries_on_empty: "(name, q) \<in> set queries \<Longrightarrow> q [] = []"
  unfolding queries_def
  by (auto simp add: average_price_per_airline_def flight_count_per_route_def
      average_duration_per_route_def cabin_class_share_def flights_per_airline_def
      price_trends_over_time_def departure_hour_popularity_def cabin_class_per_airline_def
      price_distribution_by_airline_def busiest_airports_def price_vs_duration_def
      group_by_Nil order_by_desc_def)

lemma bad_hour_flights_columns:
  "map Company (df_cleaned bad_hour_flights) = [Some ''IndiGo'', Some ''IndiGo'', Some ''IndiGo'']"
  "map Cabin_Class (df_cleaned bad_hour_flights) = [Some ''Economy'', Some ''Economy'', Some ''Economy'']"
  "map Origin (df_cleaned bad_hour_flights) = [Some ''DEL'', Some ''DEL'', Some ''DEL'']"
  "map Destination (df_cleaned bad_hour_flights) = [Some ''BOM'', Some ''BOM'', Some ''BOM'']"
  "map Price_Float (df_cleaned bad_hour_flights) = [Some 5000, Some 6000, Some 6000]"
  "map duration_value (df_cleaned bad_hour_flights) = [Some 150, Some 120, Some 45]"
  "map Departure_Hour (df_cleaned bad_hour_flights) = [Some ''09'', Some ''1x'', Some ''23'']"
  by (simp_all add: df_cleaned_def bad_hour_flights_def clean_row_fields flight_fields example_cells
      example_prices example_durations example_hours duration_value_def)

lemma bad_hour_flights_sidebar:
  "sidebar (df_cleaned bad_hour_flights) =
     Inr \<lparr>selected_airlines = [''IndiGo''], selected_classes = [''Economy''],
          selected_origins = [''DEL''], selected_destinations = [''BOM''],
          departure_hour_range = (9, 23), price_range = (5000, 6000),
          duration_range = (45, 150)\<rparr>"
  unfolding sidebar_def class_options_def derive_bounds_def bad_hour_flights_columns
  by code_simp

text \<open>
  Claim C7, as the code has it. The filter converts the whole column of departure hours
  to integers before it looks at any selection. When that conversion succeeds, a filter
  specification with an empty selection for the airline, the cabin class, the origin or
  the destination gives the empty filtered relation, and every query of the catalog
  returns no row on the empty relation, without an error. When the conversion fails, on a
  missing hour or on a text that is not an integer, the filter raises that error,
  whatever is selected.
\<close>

theorem empty_selection_filter:
  "(selected_airlines spec = [] \<or> selected_classes spec = []
      \<or> selected_origins spec = [] \<or> selected_destinations spec = [])
   \<longrightarrow> (astype_int (map Departure_Hour df) = Inr hours \<longrightarrow> df_filtered df spec = Inr [])
       \<and> (astype_int (map Departure_Hour df) = Inl e \<longrightarrow> df_filtered df spec = Inl e)
       \<and> (\<forall>(name, q) \<in> set queries. q [] = [])"
proof (intro impI conjI)
  assume "selected_airlines spec = [] \<or> selected_classes spec = []
      \<or> selected_origins spec = [] \<or> selected_destinations spec = []"
    and "astype_int (map Departure_Hour df) = Inr hours"
  thus "df_filtered df spec = Inr []" by (rule df_filtered_empty_selection)
next
  assume "astype_int (map Departure_Hour df) = Inl e"
  thus "df_filtered df spec = Inl e" by (rule df_filtered_raises)
next
  show "\<forall>(name, q) \<in> set queries. q [] = []"
    using queries_on_empty by blast
qed

theorem empty_selection_filter_witness:
  "sidebar (df_cleaned three_flights) =
     Inr \<lparr>selected_airlines = [''IndiGo''], selected_classes = [''Economy''],
          selected_origins = [''DEL''], selected_destinations = [''BOM''],
          departure_hour_range = (9, 23), price_range = (5000, 6000),
          duration_range = (45, 150)\<rparr>
   \<and> astype_int (map Departure_Hour (df_cleaned three_flights)) = Inr [9, 12, 23]
   \<and> df_filtered (df_cleaned three_flights)
        (no_airline \<lparr>selected_airlines = [''IndiGo''], selected_classes = [''Economy''],
          selected_origins = [''DEL''], selected_destinations = [''BOM''],
          departure_hour_range = (9, 23), price_range = (5000, 6000),
          duration_range = (45, 150)\<rparr>) = Inr []
   \<and> map (\<lambda>(name, q). q []) queries = replicate 11 []"
proof -
  let ?spec = "no_airline \<lparr>selected_airlines = [''IndiGo''], selected_classes = [''Economy''],
          selected_origins = [''DEL''], selected_destinations = [''BOM''],
          departure_hour_range = (9, 23), price_range = (5000, 6000),
          duration_range = (45, 150)\<rparr>"
  have s: "selected_airlines ?spec = []" by (simp add: no_airline_def)
  have h: "astype_int (map Departure_Hour (df_cleaned three_flights)) = Inr [9, 12, 23]"
    unfolding three_flights_columns by (rule example_astype_int(1))
  from empty_selection_filter [of ?spec "df_cleaned three_flights" "[9, 12, 23]"] s h
  have f: "df_filtered (df_cleaned three_flights) ?spec = Inr []"
    and q: "\<forall>(name, q) \<in> set queries. q [] = []"
    by blast+
  from q have "map (\<lambda>(name, q). q []) queries = map (\<lambda>nq. []) queries"
    by (intro map_cong) auto
  also have "\<dots> = replicate (length queries) []" by (simp add: map_replicate_const)
  also have "length queries = 11" by (simp add: queries_def)
  finally have "map (\<lambda>(name, q). q []) queries = replicate 11 []" .
  with three_flights_sidebar h f show ?thesis by blast
qed

text \<open>
  A cleaned relation that passes the sidebar and on which the filter raises although no
  airline is selected: the second of three departure times is \<open>1x:30\<close>, and the
  conversion of the hour \<open>1x\<close> to an integer fails.
\<close>

theorem empty_selection_bad_hour_counterexample:
  "sidebar (df_cleaned bad_hour_flights) =
     Inr \<lparr>selected_airlines = [''IndiGo''], selected_classes = [''Economy''],
          selected_origins = [''DEL''], selected_destinations = [''BOM''],
          departure_hour_range = (9, 23), price_range = (5000, 6000),
          duration_range = (45, 150)\<rparr>
   \<and> df_filtered (df_cleaned bad_hour_flights)
        (no_airline \<lparr>selected_airlines = [''IndiGo''], selected_classes = [''Economy''],
          selected_origins = [''DEL''], selected_destinations = [''BOM''],
          departure_hour_range = (9, 23), price_range = (5000, 6000),
          duration_range = (45, 150)\<rparr>) = Inl ValueError"
proof -
  have "astype_int (map Departure_Hour (df_cleaned bad_hour_flights)) = Inl ValueError"
    unfolding bad_hour_flights_columns by (rule example_astype_int(2))
  hence "df_filtered (df_cleaned bad_hour_flights)
        (no_airline \<lparr>selected_airlines = [''IndiGo''], selected_classes = [''Economy''],
          selected_origins = [''DEL''], selected_destinations = [''BOM''],
          departure_hour_range = (9, 23), price_range = (5000, 6000),
          duration_range = (45, 150)\<rparr>) = Inl ValueError"
    by (rule df_filtered_raises)
  with bad_hour_flights_sidebar show ?thesis by simp
qed


section \<open>The bounds of an undefined column\<close>
















end
